theory Spec2Isabelle
  imports Complex_Main
begin

text \<open>
  The VelocityDRIVE-SP web service wraps the command \<open>dr mup1cc\<close>: its one endpoint,
  \<open>POST /api/run-mup1cc\<close>, saves an optional upload to a temp file, runs the command,
  and turns the outcome into a JSON response.  The handler \<open>run_mup1cc\<close> exists in two
  copies, \<open>web/main.py\<close> and \<open>docker/main.py\<close>; both are embedded here, with the file
  system, the external program, the YAML library and the web framework as explicit
  surroundings.
\<close>

section \<open>The Python values the service handles\<close>

text \<open>
  A Python \<open>str\<close> is a sequence of Unicode code points, so it is modelled as a list of
  natural numbers; \<open>py\<close> embeds the ASCII literals of the source.  \<open>bytes\<close> is a list
  of octets, also kept as numbers.
\<close>

type_synonym str = "nat list"
type_synonym bytes = "nat list"

definition py :: "string \<Rightarrow> str" where
  "py s = map of_char s"

text \<open>
  Exceptions.  \<open>subprocess.TimeoutExpired\<close> is the one class the handler names; every
  other instance of \<open>Exception\<close> is kept with its message \<open>str(e)\<close>.  What is not
  an \<open>Exception\<close> (a keyboard interrupt, the cancellation of the task) is outside the
  model.
\<close>

datatype exn = TimeoutExpired | Exception str

text \<open>A Python \<open>float\<close>: a finite number, or one of the three values JSON cannot carry.\<close>

datatype pyfloat = Finite real | NaN | PosInf | NegInf

text \<open>
  What \<open>yaml.safe_load\<close> can return.  \<open>VOther\<close> stands for an object of any other
  class (a date, bytes, a set), named by its \<open>repr\<close>.
\<close>

datatype pyval =
    VNone
  | VBool bool
  | VInt int
  | VFloat pyfloat
  | VStr str
  | VList "pyval list"
  | VDict "(pyval \<times> pyval) list"
  | VOther str

text \<open>
  \<open>JSONResponse(status_code=..., content=...)\<close>: a status code and a JSON object, kept
  as the list of its items in insertion order.
\<close>

record response =
  status_code :: nat
  content :: "(str \<times> pyval) list"

definition JSONResponse :: "nat \<Rightarrow> (str \<times> pyval) list \<Rightarrow> response" where
  "JSONResponse sc c = \<lparr>status_code = sc, content = c\<rparr>"

text \<open>What the handler returns: a plain \<open>dict\<close>, or a \<open>JSONResponse\<close> it built itself.\<close>

datatype returned = Dict "(str \<times> pyval) list" | Response response

text \<open>
  What the client receives: a status code with a JSON object, or a status code with
  plain text.
\<close>

datatype served = Json nat "(str \<times> pyval) list" | Plain nat str

text \<open>\<open>UploadFile\<close>: an optional file name and the uploaded bytes.\<close>

record upload =
  filename :: "str option"
  payload :: bytes

section \<open>The world outside the handler\<close>

text \<open>
  The file system maps a path to what is there: a regular file with its bytes, or a
  directory.
\<close>

datatype node = File bytes | Dir

type_synonym fs = "str \<Rightarrow> node option"

text \<open>
  \<open>subprocess.CompletedProcess\<close>, with \<open>capture_output=True, text=True\<close>: the command
  line it was started with, the exit status and the two captured texts.
\<close>

record completed_process =
  args :: "str list"
  returncode :: int
  stdout :: str
  stderr :: str

text \<open>
  What a started child does when left alone: it exits after some seconds with an exit
  status, a stdout and a stderr, or it never exits.
\<close>

datatype child = Exits real int str str | Hangs

datatype io_step = Create | Read | Write | Close | Unlink

text \<open>
  Everything the handler does not control:
  \<^item> \<open>tempdir\<close>: the directory \<open>tempfile.gettempdir()\<close> gives, absolute and normalised;
  \<open>names\<close>: the random candidate names \<open>tempfile\<close> draws, in order;
  \<^item> \<open>fault\<close>: the exception the operating system raises at an I/O step on the upload
  or the temp file, if any (a full disk, a missing permission);
  \<^item> \<open>spawn\<close>: the external program.  It is started with a command line, with the
  input the caller supplies on stdin (\<open>None\<close>: nothing is supplied and the child
  inherits the server's stdin), in a file system; it fails to start (or its output fails
  to decode) with an exception, or it is a child; either way it may have changed the
  files;
  \<^item> \<open>safe_load\<close>: the YAML library, a function of the text alone;
  \<^item> \<open>render_other\<close>: what the web framework answers for a returned \<open>dict\<close> that holds
  an object of another class.
\<close>

record env =
  tempdir :: str
  names :: "str list"
  fault :: "io_step \<Rightarrow> exn option"
  spawn :: "str list \<Rightarrow> str option \<Rightarrow> fs \<Rightarrow> (exn + child) \<times> fs"
  safe_load :: "str \<Rightarrow> exn + pyval"
  render_other :: "(str \<times> pyval) list \<Rightarrow> served"

section \<open>Library functions the handler calls\<close>

subsection \<open>\<open>str.strip()\<close>\<close>

text \<open>The code points for which \<open>str.isspace\<close> holds.\<close>

definition isspace :: "nat \<Rightarrow> bool" where
  "isspace c \<longleftrightarrow>
     (9 \<le> c \<and> c \<le> 13) \<or> (28 \<le> c \<and> c \<le> 32) \<or> c = 133 \<or> c = 160 \<or> c = 5760
     \<or> (8192 \<le> c \<and> c \<le> 8202) \<or> c = 8232 \<or> c = 8233 \<or> c = 8239 \<or> c = 8287
     \<or> c = 12288"

definition strip :: "str \<Rightarrow> str" where
  "strip s = rev (dropWhile isspace (rev (dropWhile isspace s)))"

text \<open>\<open>a or b\<close> on strings: the empty string is false.\<close>

definition str_or :: "str \<Rightarrow> str \<Rightarrow> str" where
  "str_or a b = (if a = [] then b else a)"

subsection \<open>\<open>pathlib.Path(...).suffix\<close> on POSIX\<close>

fun split_sep :: "nat \<Rightarrow> str \<Rightarrow> str list" where
  "split_sep sep [] = [[]]"
| "split_sep sep (c # cs) =
     (if c = sep then [] # split_sep sep cs
      else (case split_sep sep cs of
              [] \<Rightarrow> [[c]]
            | p # ps \<Rightarrow> (c # p) # ps))"

text \<open>
  The parts of a path are its components between slashes, without the empty ones and
  the single dots; \<open>name\<close> is the last part, or the empty string.
\<close>

definition path_name :: "str \<Rightarrow> str" where
  "path_name s =
     (case filter (\<lambda>x. x \<noteq> [] \<and> x \<noteq> py ''.'') (split_sep 47 s) of
        [] \<Rightarrow> []
      | p # ps \<Rightarrow> last (p # ps))"

text \<open>\<open>str.rfind\<close>: the index of the last occurrence, \<open>None\<close> for Python's \<open>-1\<close>.\<close>

fun rfind :: "nat \<Rightarrow> str \<Rightarrow> nat option" where
  "rfind x [] = None"
| "rfind x (c # cs) =
     (case rfind x cs of
        Some i \<Rightarrow> Some (Suc i)
      | None \<Rightarrow> (if c = x then Some 0 else None))"

text \<open>
  \<open>suffix\<close> (Python 3.10 to 3.13): with \<open>i = name.rfind('.')\<close>, the text from \<open>i\<close> on
  when \<open>0 < i < len(name) - 1\<close>, else the empty string.
\<close>

definition path_suffix :: "str \<Rightarrow> str" where
  "path_suffix s =
     (let name = path_name s in
      case rfind 46 name of
        None \<Rightarrow> []
      | Some i \<Rightarrow> (if 0 < i \<and> i + 1 < length name then drop i name else []))"

subsection \<open>\<open>tempfile.NamedTemporaryFile(delete=False, suffix=suffix)\<close>\<close>

definition path_join :: "str \<Rightarrow> str \<Rightarrow> str" where
  "path_join dir f = (if dir \<noteq> [] \<and> last dir = 47 then dir @ f else dir @ py ''/'' @ f)"

text \<open>
  The candidates are tried in order; a name that is taken (by a file or a directory) is
  skipped, and when all are taken \<open>FileExistsError\<close> is raised.  The file is created
  empty.
\<close>

fun mkstemp_inner :: "str \<Rightarrow> str \<Rightarrow> str \<Rightarrow> str list \<Rightarrow> fs \<Rightarrow> (exn + str) \<times> fs" where
  "mkstemp_inner dir pre suf [] w =
     (Inl (Exception (py ''[Errno 17] No usable temporary file name found'')), w)"
| "mkstemp_inner dir pre suf (n # ns) w =
     (let file = path_join dir (pre @ n @ suf) in
      if w file \<noteq> None then mkstemp_inner dir pre suf ns w
      else (Inr file, w(file \<mapsto> File [])))"

definition NamedTemporaryFile :: "env \<Rightarrow> str \<Rightarrow> fs \<Rightarrow> (exn + str) \<times> fs" where
  "NamedTemporaryFile env suffix w =
     (case fault env Create of
        Some e \<Rightarrow> (Inl e, w)
      | None \<Rightarrow> mkstemp_inner (tempdir env) (py ''tmp'') suffix (names env) w)"

text \<open>\<open>await input_file.read()\<close>, \<open>tmp.write(data)\<close> and \<open>tmp.close()\<close>.\<close>

definition upload_read :: "env \<Rightarrow> upload \<Rightarrow> exn + bytes" where
  "upload_read env up = (case fault env Read of Some e \<Rightarrow> Inl e | None \<Rightarrow> Inr (payload up))"

definition tmp_write :: "env \<Rightarrow> str \<Rightarrow> bytes \<Rightarrow> fs \<Rightarrow> (exn + unit) \<times> fs" where
  "tmp_write env p b w =
     (case fault env Write of
        Some e \<Rightarrow> (Inl e, w)
      | None \<Rightarrow> (Inr (), w(p \<mapsto> File b)))"

definition tmp_close :: "env \<Rightarrow> str \<Rightarrow> fs \<Rightarrow> (exn + unit) \<times> fs" where
  "tmp_close env p w = (case fault env Close of Some e \<Rightarrow> (Inl e, w) | None \<Rightarrow> (Inr (), w))"

subsection \<open>\<open>Path.exists()\<close> and \<open>Path.unlink()\<close>\<close>

text \<open>
  A path exists when the file system has it, as a file or as a directory.  \<open>unlink\<close>
  raises \<open>FileNotFoundError\<close> on a missing path and \<open>IsADirectoryError\<close> on a directory;
  on a regular file it raises what the operating system raises, if anything (a
  \<open>PermissionError\<close>), and else removes the file.
\<close>

definition exists :: "str \<Rightarrow> fs \<Rightarrow> bool" where
  "exists p w \<longleftrightarrow> w p \<noteq> None"

definition unlink :: "env \<Rightarrow> str \<Rightarrow> fs \<Rightarrow> (exn + unit) \<times> fs" where
  "unlink env p w =
     (case w p of
        None \<Rightarrow> (Inl (Exception (py ''[Errno 2] No such file or directory: '' @ p)), w)
      | Some Dir \<Rightarrow> (Inl (Exception (py ''[Errno 21] Is a directory: '' @ p)), w)
      | Some (File b) \<Rightarrow>
          (case fault env Unlink of
             Some e \<Rightarrow> (Inl e, w)
           | None \<Rightarrow> (Inr (), w(p := None))))"

subsection \<open>\<open>subprocess.run(cmd, capture_output=True, text=True, timeout=t)\<close>\<close>

text \<open>
  No \<open>input\<close> and no \<open>stdin\<close> is passed, so the program is started with nothing
  supplied on stdin.  A child that has not exited after \<open>t\<close> seconds is killed and
  \<open>TimeoutExpired\<close> raised; one that has exited gives a \<open>CompletedProcess\<close>.
\<close>

definition subprocess_run ::
  "env \<Rightarrow> str list \<Rightarrow> real \<Rightarrow> fs \<Rightarrow> (exn + completed_process) \<times> fs" where
  "subprocess_run env cmd t w =
     (case spawn env cmd None w of (r, f) \<Rightarrow>
      (case r of
         Inl e \<Rightarrow> (Inl e, f)
       | Inr c \<Rightarrow>
           (case c of
              Hangs \<Rightarrow> (Inl TimeoutExpired, f)
            | Exits d rc out err \<Rightarrow>
                (if d \<le> t
                 then (Inr \<lparr>args = cmd, returncode = rc, stdout = out, stderr = err\<rparr>, f)
                 else (Inl TimeoutExpired, f)))))"

subsection \<open>The web framework\<close>

text \<open>
  A value that \<open>json.dumps(..., allow_nan=False)\<close> renders as it is: built from
  \<open>None\<close>, booleans, integers, finite floats, strings, lists, and dictionaries whose
  keys are such scalars.
\<close>

fun json_scalar :: "pyval \<Rightarrow> bool" where
  "json_scalar VNone = True"
| "json_scalar (VBool b) = True"
| "json_scalar (VInt i) = True"
| "json_scalar (VFloat x) = (case x of Finite r \<Rightarrow> True | _ \<Rightarrow> False)"
| "json_scalar (VStr s) = True"
| "json_scalar (VList xs) = False"
| "json_scalar (VDict kvs) = False"
| "json_scalar (VOther s) = False"

fun json_plain :: "pyval \<Rightarrow> bool" where
  "json_plain (VList xs) = list_all json_plain xs"
| "json_plain (VDict kvs) = list_all (\<lambda>kv. json_scalar (fst kv) \<and> json_plain (snd kv)) kvs"
| "json_plain v = json_scalar v"

text \<open>Whether an object of another class occurs anywhere in a value.\<close>

fun has_other :: "pyval \<Rightarrow> bool" where
  "has_other (VOther s) = True"
| "has_other (VList xs) = list_ex has_other xs"
| "has_other (VDict kvs) = list_ex (\<lambda>kv. has_other (fst kv) \<or> has_other (snd kv)) kvs"
| "has_other v = False"

text \<open>
  What the framework makes of the handler's outcome.  A \<open>JSONResponse\<close> is sent as it
  is.  A returned \<open>dict\<close> is encoded and rendered with status 200; when rendering raises
  (a float that JSON cannot carry), and when an exception leaves the handler, the client
  receives 500 with the plain text \<open>Internal Server Error\<close>.
\<close>

definition serve :: "env \<Rightarrow> exn + returned \<Rightarrow> served" where
  "serve env r =
     (case r of
        Inl e \<Rightarrow> Plain 500 (py ''Internal Server Error'')
      | Inr (Response resp) \<Rightarrow> Json (status_code resp) (content resp)
      | Inr (Dict c) \<Rightarrow>
          (if list_all (\<lambda>kv. json_plain (snd kv)) c then Json 200 c
           else if list_ex (\<lambda>kv. has_other (snd kv)) c then render_other env c
           else Plain 500 (py ''Internal Server Error'')))"

section \<open>The handler of \<open>web/main.py\<close>\<close>

text \<open>
  \<open>run_mup1cc\<close> follows the numbered steps of its source: (1) save the upload,
  (2) build the command, (3) run it, (4) and (5) turn the completed process into what
  the handler returns, (6) remove the temp file.
\<close>

text \<open>\<open>input_file.filename or "input"\<close>: a missing and an empty name are both false.\<close>

definition filename_or :: "str option \<Rightarrow> str \<Rightarrow> str" where
  "filename_or f d = (case f of None \<Rightarrow> d | Some n \<Rightarrow> str_or n d)"

text \<open>\<open>Path(input_file.filename or "input").suffix or ".yaml"\<close>\<close>

definition upload_suffix :: "upload \<Rightarrow> str" where
  "upload_suffix up =
     str_or (path_suffix (filename_or (filename up) (py ''input''))) (py ''.yaml'')"

text \<open>
  Step (1).  The result is the value of \<open>temp_path\<close> when the step ends, the exception
  that ended it (if any), and the file system.  \<open>temp_path\<close> is assigned as soon as the
  file exists, before the upload is read and written.
\<close>

definition save_upload ::
  "env \<Rightarrow> upload option \<Rightarrow> fs \<Rightarrow> str option \<times> (exn + unit) \<times> fs" where
  "save_upload env input_file w =
     (case input_file of
        None \<Rightarrow> (None, Inr (), w)
      | Some up \<Rightarrow>
          (let suffix = upload_suffix up in
           case NamedTemporaryFile env suffix w of (tmp, w1) \<Rightarrow>
           (case tmp of
              Inl e \<Rightarrow> (None, Inl e, w1)
            | Inr name \<Rightarrow>
                (let temp_path = Some name in
                 case upload_read env up of
                   Inl e \<Rightarrow> (temp_path, Inl e, w1)
                 | Inr b \<Rightarrow>
                     (case tmp_write env name b w1 of (r2, w2) \<Rightarrow>
                      (case r2 of
                         Inl e \<Rightarrow> (temp_path, Inl e, w2)
                       | Inr u \<Rightarrow>
                           (case tmp_close env name w2 of (r3, w3) \<Rightarrow>
                              (temp_path, r3, w3))))))))"

text \<open>Step (2).\<close>

definition build_cmd :: "str \<Rightarrow> str \<Rightarrow> str option \<Rightarrow> str list" where
  "build_cmd device method temp_path =
     [py ''dr'', py ''mup1cc'', py ''-d'', device, py ''-m'', method]
     @ (case temp_path of None \<Rightarrow> [] | Some p \<Rightarrow> [py ''-i'', p])"

text \<open>
  Steps (4) and (5).  Whatever \<open>yaml.safe_load\<close> raises is caught by the inner
  \<open>except Exception\<close>.
\<close>

definition decode_output :: "env \<Rightarrow> completed_process \<Rightarrow> returned" where
  "decode_output env proc =
     (if returncode proc \<noteq> 0
      then Response (JSONResponse 500
             [(py ''error'', VStr (str_or (strip (stderr proc)) (py ''mup1cc failed'')))])
      else (let out = strip (stdout proc) in
            case safe_load env out of
              Inr parsed \<Rightarrow> Dict [(py ''output'', parsed)]
            | Inl e \<Rightarrow> Dict [(py ''output_raw'', VStr out)]))"

text \<open>
  The body of the \<open>try\<close>: the value of \<open>temp_path\<close>, what it raised or returned, the
  file system.
\<close>

definition try_body ::
  "env \<Rightarrow> str \<Rightarrow> str \<Rightarrow> upload option \<Rightarrow> fs
     \<Rightarrow> str option \<times> (exn + returned) \<times> fs" where
  "try_body env method device input_file w =
     (case save_upload env input_file w of (temp_path, r1, w1) \<Rightarrow>
      (case r1 of
         Inl e \<Rightarrow> (temp_path, Inl e, w1)
       | Inr u \<Rightarrow>
           (let cmd = build_cmd device method temp_path in
            case subprocess_run env cmd 30 w1 of (r2, w2) \<Rightarrow>
            (case r2 of
               Inl e \<Rightarrow> (temp_path, Inl e, w2)
             | Inr proc \<Rightarrow> (temp_path, Inr (decode_output env proc), w2)))))"

text \<open>The two \<open>except\<close> clauses.\<close>

definition on_exception :: "exn \<Rightarrow> returned" where
  "on_exception e =
     (case e of
        TimeoutExpired \<Rightarrow>
          Response (JSONResponse 504 [(py ''error'', VStr (py ''mup1cc timeout''))])
      | Exception m \<Rightarrow> Response (JSONResponse 500 [(py ''error'', VStr m)]))"

text \<open>
  Step (6), the \<open>finally\<close> clause.  It is outside every \<open>except\<close>: an exception raised
  here leaves the handler.
\<close>

definition cleanup :: "env \<Rightarrow> str option \<Rightarrow> fs \<Rightarrow> (exn + unit) \<times> fs" where
  "cleanup env temp_path w =
     (case temp_path of
        None \<Rightarrow> (Inr (), w)
      | Some p \<Rightarrow> (if exists p w then unlink env p w else (Inr (), w)))"

text \<open>
  The handler: \<open>Inr\<close> what it returns, \<open>Inl\<close> an exception that leaves it, and the file
  system it leaves behind.
\<close>

definition web_run_mup1cc ::
  "env \<Rightarrow> str \<Rightarrow> str \<Rightarrow> upload option \<Rightarrow> fs \<Rightarrow> (exn + returned) \<times> fs" where
  "web_run_mup1cc env method device input_file w =
     (case try_body env method device input_file w of (temp_path, r, w1) \<Rightarrow>
      (let answer = (case r of Inr resp \<Rightarrow> resp | Inl e \<Rightarrow> on_exception e) in
       case cleanup env temp_path w1 of (c, w2) \<Rightarrow>
       (case c of
          Inl e \<Rightarrow> (Inl e, w2)
        | Inr u \<Rightarrow> (Inr answer, w2))))"

section \<open>The handler of \<open>docker/main.py\<close>\<close>

text \<open>The second copy has no step comments; it is translated as it stands, in one piece.\<close>

definition docker_run_mup1cc ::
  "env \<Rightarrow> str \<Rightarrow> str \<Rightarrow> upload option \<Rightarrow> fs \<Rightarrow> (exn + returned) \<times> fs" where
  "docker_run_mup1cc env method device input_file w =
     (let
        after_run = (\<lambda>temp_path w1.
          (let cmd = [py ''dr'', py ''mup1cc'', py ''-d'', device, py ''-m'', method]
                     @ (if temp_path \<noteq> None then [py ''-i'', the temp_path] else []) in
           case subprocess_run env cmd 30 w1 of (r, w2) \<Rightarrow>
           (case r of
              Inl e \<Rightarrow> (temp_path, Inl e, w2)
            | Inr proc \<Rightarrow>
                (if returncode proc \<noteq> 0
                 then (temp_path,
                       Inr (Response (JSONResponse 500
                         [(py ''error'',
                           VStr (str_or (strip (stderr proc)) (py ''mup1cc failed'')))])),
                       w2)
                 else (let out = strip (stdout proc) in
                       case safe_load env out of
                         Inr parsed \<Rightarrow>
                           (temp_path, Inr (Dict [(py ''output'', parsed)]), w2)
                       | Inl e \<Rightarrow>
                           (temp_path, Inr (Dict [(py ''output_raw'', VStr out)]), w2))))));
        tried =
          (case input_file of
             None \<Rightarrow> after_run None w
           | Some up \<Rightarrow>
               (let suffix =
                      str_or (path_suffix (filename_or (filename up) (py ''input'')))
                             (py ''.yaml'') in
                case NamedTemporaryFile env suffix w of (tmp, w1) \<Rightarrow>
                (case tmp of
                   Inl e \<Rightarrow> (None, Inl e, w1)
                 | Inr name \<Rightarrow>
                     (case upload_read env up of
                        Inl e \<Rightarrow> (Some name, Inl e, w1)
                      | Inr b \<Rightarrow>
                          (case tmp_write env name b w1 of (r2, w2) \<Rightarrow>
                           (case r2 of
                              Inl e \<Rightarrow> (Some name, Inl e, w2)
                            | Inr u \<Rightarrow>
                                (case tmp_close env name w2 of (r3, w3) \<Rightarrow>
                                 (case r3 of
                                    Inl e \<Rightarrow> (Some name, Inl e, w3)
                                  | Inr u \<Rightarrow> after_run (Some name) w3))))))))
      in case tried of (temp_path, r, w1) \<Rightarrow>
         (let answer =
                (case r of
                   Inr resp \<Rightarrow> resp
                 | Inl TimeoutExpired \<Rightarrow>
                     Response (JSONResponse 504 [(py ''error'', VStr (py ''mup1cc timeout''))])
                 | Inl (Exception m) \<Rightarrow>
                     Response (JSONResponse 500 [(py ''error'', VStr m)]))
          in if temp_path \<noteq> None \<and> exists (the temp_path) w1
             then (case unlink env (the temp_path) w1 of (c, w2) \<Rightarrow>
                   (case c of Inl e \<Rightarrow> (Inl e, w2) | Inr u \<Rightarrow> (Inr answer, w2)))
             else (Inr answer, w1)))"

section \<open>The specification's reading of the temp-file suffix\<close>





section \<open>A mocked tool and a mocked YAML library\<close>

text \<open>
  A stand-in for the device tool.  What it answers is a function of the command line
  alone: it depends on the method, the sixth word of the command line.  It ignores its
  stdin.  On \<open>replace\<close> it puts a directory where its last argument points.
\<close>

definition mock_tool :: "str list \<Rightarrow> str option \<Rightarrow> fs \<Rightarrow> (exn + child) \<times> fs" where
  "mock_tool cmd inp f =
     (case drop 5 cmd of
        [] \<Rightarrow> (Inl (Exception (py ''usage'')), f)
      | m # rest \<Rightarrow>
          (if m = py ''get'' then (Inr (Exits 2 0 (py '' status: ok '') []), f)
           else if m = py ''fetch'' then (Inr (Exits 1 1 [] (py ''connection refused '')), f)
           else if m = py ''put'' then (Inr (Exits 1 3 [] (py ''cannot read '' @ last cmd)), f)
           else if m = py ''post'' then (Inr (Exits 1 0 (py ''not: [valid yaml'') []), f)
           else if m = py ''ipatch'' then (Inr (Exits 1 0 (py ''   '') (py ''done'')), f)
           else if m = py ''delete'' then (Inr (Exits 45 0 (py ''late'') []), f)
           else if m = py ''probe'' then (Inr (Exits 1 0 (py ''temp: .nan'') []), f)
           else if m = py ''replace'' then
             (Inr (Exits 1 0 (py ''status: ok'') []), f(last cmd \<mapsto> Dir))
           else (Inl (Exception (py ''[Errno 2] No such file or directory'')), f)))"

definition mock_safe_load :: "str \<Rightarrow> exn + pyval" where
  "mock_safe_load s =
     (if s = [] then Inr VNone
      else if s = py ''status: ok'' then Inr (VDict [(VStr (py ''status''), VStr (py ''ok''))])
      else if s = py ''temp: .nan'' then Inr (VDict [(VStr (py ''temp''), VFloat NaN)])
      else Inl (Exception (py ''while parsing a flow sequence'')))"

definition mock_env :: env where
  "mock_env =
     \<lparr>tempdir = py ''/tmp'', names = [py ''k3x9q_ab'', py ''zz81hm0p''],
      fault = (\<lambda>s. None), spawn = mock_tool, safe_load = mock_safe_load,
      render_other = (\<lambda>c. Json 200 c)\<rparr>"

text \<open>The same surroundings, in which \<open>tempfile\<close> draws another name.\<close>

definition mock_env_again :: env where
  "mock_env_again = mock_env\<lparr>names := [py ''zz81hm0p'']\<rparr>"


definition mock_fs :: fs where
  "mock_fs = Map.empty"

definition mock_upload :: upload where
  "mock_upload = \<lparr>filename = Some (py ''patch.yml''), payload = [45, 32, 97]\<rparr>"

section \<open>The code's suffix is the specification's extension\<close>














section \<open>The two copies agree\<close>

lemma docker_after:
  "(let cmd = [py ''dr'', py ''mup1cc'', py ''-d'', device, py ''-m'', method]
                     @ (if temp_path \<noteq> None then [py ''-i'', the temp_path] else []) in
           case subprocess_run env cmd 30 w1 of (r, w2) \<Rightarrow>
           (case r of
              Inl e \<Rightarrow> (temp_path, Inl e, w2)
            | Inr proc \<Rightarrow>
                (if returncode proc \<noteq> 0
                 then (temp_path,
                       Inr (Response (JSONResponse 500
                         [(py ''error'',
                           VStr (str_or (strip (stderr proc)) (py ''mup1cc failed'')))])),
                       w2)
                 else (let out = strip (stdout proc) in
                       case safe_load env out of
                         Inr parsed \<Rightarrow>
                           (temp_path, Inr (Dict [(py ''output'', parsed)]), w2)
                       | Inl e \<Rightarrow>
                           (temp_path, Inr (Dict [(py ''output_raw'', VStr out)]), w2)))))
  = (case subprocess_run env (build_cmd device method temp_path) 30 w1 of (r, w2) \<Rightarrow>
            (case r of
               Inl e \<Rightarrow> (temp_path, Inl e, w2)
             | Inr proc \<Rightarrow> (temp_path, Inr (decode_output env proc), w2)))"
proof -
  have c: "[py ''dr'', py ''mup1cc'', py ''-d'', device, py ''-m'', method]
                     @ (if temp_path \<noteq> None then [py ''-i'', the temp_path] else [])
         = build_cmd device method temp_path"
    by (cases temp_path) (simp_all add: build_cmd_def)
  obtain r w2 where s: "subprocess_run env (build_cmd device method temp_path) 30 w1 = (r, w2)"
    by (cases "subprocess_run env (build_cmd device method temp_path) 30 w1")
  show ?thesis
  proof (cases r)
    case (Inl e)
    then show ?thesis unfolding Let_def c s by simp
  next
    case (Inr proc)
    then show ?thesis unfolding Let_def c s
      by (cases "safe_load env (strip (stdout proc))") (simp_all add: decode_output_def)
  qed
qed

lemma docker_tail:
  "(let answer =
                (case r of
                   Inr resp \<Rightarrow> resp
                 | Inl TimeoutExpired \<Rightarrow>
                     Response (JSONResponse 504 [(py ''error'', VStr (py ''mup1cc timeout''))])
                 | Inl (Exception m) \<Rightarrow>
                     Response (JSONResponse 500 [(py ''error'', VStr m)]))
          in if temp_path \<noteq> None \<and> exists (the temp_path) w1
             then (case unlink env (the temp_path) w1 of (c, w2) \<Rightarrow>
                   (case c of Inl e \<Rightarrow> (Inl e, w2) | Inr u \<Rightarrow> (Inr answer, w2)))
             else (Inr answer, w1))
   = (let answer = (case r of Inr resp \<Rightarrow> resp | Inl e \<Rightarrow> on_exception e) in
       case cleanup env temp_path w1 of (c, w2) \<Rightarrow>
       (case c of
          Inl e \<Rightarrow> (Inl e, w2)
        | Inr u \<Rightarrow> (Inr answer, w2)))"
proof -
  have a: "(case r of
                   Inr resp \<Rightarrow> resp
                 | Inl TimeoutExpired \<Rightarrow>
                     Response (JSONResponse 504 [(py ''error'', VStr (py ''mup1cc timeout''))])
                 | Inl (Exception m) \<Rightarrow>
                     Response (JSONResponse 500 [(py ''error'', VStr m)]))
     = (case r of Inr resp \<Rightarrow> resp | Inl e \<Rightarrow> on_exception e)"
    by (simp add: on_exception_def split: sum.split exn.split)
  show ?thesis
    unfolding a Let_def
    by (cases temp_path) (simp_all add: cleanup_def)
qed

lemma docker_eq_web:
  "docker_run_mup1cc env method device input_file w
   = web_run_mup1cc env method device input_file w"
proof -
  have tried: "(case input_file of
       None \<Rightarrow>
         (case subprocess_run env (build_cmd device method None) 30 w of (r, w2) \<Rightarrow>
          (case r of
             Inl e \<Rightarrow> (None, Inl e, w2)
           | Inr proc \<Rightarrow> (None, Inr (decode_output env proc), w2)))
     | Some up \<Rightarrow>
         (case NamedTemporaryFile env
                 (str_or (path_suffix (filename_or (filename up) (py ''input''))) (py ''.yaml''))
                 w of (tmp, w1) \<Rightarrow>
          (case tmp of
             Inl e \<Rightarrow> (None, Inl e, w1)
           | Inr name \<Rightarrow>
               (case upload_read env up of
                  Inl e \<Rightarrow> (Some name, Inl e, w1)
                | Inr b \<Rightarrow>
                    (case tmp_write env name b w1 of (r2, w2) \<Rightarrow>
                     (case r2 of
                        Inl e \<Rightarrow> (Some name, Inl e, w2)
                      | Inr u \<Rightarrow>
                          (case tmp_close env name w2 of (r3, w3) \<Rightarrow>
                           (case r3 of
                              Inl e \<Rightarrow> (Some name, Inl e, w3)
                            | Inr u \<Rightarrow>
                                (case subprocess_run env
                                        (build_cmd device method (Some name)) 30 w3 of
                                   (r, w2) \<Rightarrow>
                                   (case r of
                                      Inl e \<Rightarrow> (Some name, Inl e, w2)
                                    | Inr proc \<Rightarrow>
                                        (Some name, Inr (decode_output env proc), w2)))))))))))
     = try_body env method device input_file w"
  proof (cases input_file)
    case None
    then show ?thesis by (simp add: try_body_def save_upload_def)
  next
    case (Some up)
    obtain tmp w1 where n: "NamedTemporaryFile env (upload_suffix up) w = (tmp, w1)"
      by (cases "NamedTemporaryFile env (upload_suffix up) w")
    show ?thesis
    proof (cases tmp)
      case (Inl e)
      with Some n show ?thesis
        by (simp add: try_body_def save_upload_def upload_suffix_def)
    next
      case (Inr name)
      show ?thesis
      proof (cases "upload_read env up")
        case (Inl e)
        with Some n \<open>tmp = Inr name\<close> show ?thesis
          by (simp add: try_body_def save_upload_def upload_suffix_def)
      next
        case rd: (Inr b)
        obtain r2 w2 where wr: "tmp_write env name b w1 = (r2, w2)"
          by (cases "tmp_write env name b w1")
        obtain r3 w3 where cl: "tmp_close env name w2 = (r3, w3)"
          by (cases "tmp_close env name w2")
        from Some n \<open>tmp = Inr name\<close> rd wr cl show ?thesis
          by (cases r2; cases r3) (simp_all add: try_body_def save_upload_def upload_suffix_def)
      qed
    qed
  qed
  show ?thesis
    unfolding docker_run_mup1cc_def web_run_mup1cc_def Let_def
      docker_after[unfolded Let_def] docker_tail[unfolded Let_def] tried
    by (rule refl)
qed

lemma either_copy:
  "handler = web_run_mup1cc \<or> handler = docker_run_mup1cc \<Longrightarrow>
   handler env method device input_file w = web_run_mup1cc env method device input_file w"
  by (auto simp: docker_eq_web)

section \<open>How the steps compose\<close>

lemma cleanup_none: "cleanup env None w = (Inr (), w)"
  by (simp add: cleanup_def)

lemma cleanup_done:
  assumes "fst (cleanup env temp_path w) = Inr ()"
  shows "snd (cleanup env temp_path w) =
           (case temp_path of None \<Rightarrow> w | Some p \<Rightarrow> w(p := None))"
proof (cases temp_path)
  case None
  then show ?thesis by (simp add: cleanup_def)
next
  case (Some p)
  show ?thesis
  proof (cases "w p")
    case None
    then have "w(p := None) = w" by (simp add: fun_upd_idem_iff)
    with None Some show ?thesis by (simp add: cleanup_def exists_def)
  next
    case s: (Some n)
    with assms Some show ?thesis
      by (cases n; cases "fault env Unlink")
         (simp_all add: cleanup_def exists_def unlink_def)
  qed
qed

lemma cleanup_raised:
  assumes "fst (cleanup env temp_path w) = Inl e"
  shows "snd (cleanup env temp_path w) = w"
  using assms
  by (auto simp: cleanup_def exists_def unlink_def
           split: option.splits node.splits if_splits)

lemma web_run_eq:
  assumes "try_body env method device input_file w = (temp_path, r, w1)"
  shows "web_run_mup1cc env method device input_file w =
           ((case fst (cleanup env temp_path w1) of
               Inl e \<Rightarrow> Inl e
             | Inr u \<Rightarrow> Inr (case r of Inr resp \<Rightarrow> resp | Inl e \<Rightarrow> on_exception e)),
            snd (cleanup env temp_path w1))"
  using assms
  by (cases "cleanup env temp_path w1")
     (simp add: web_run_mup1cc_def split: sum.split)

lemma try_body_save_raises:
  assumes "save_upload env input_file w = (temp_path, Inl e, w1)"
  shows "try_body env method device input_file w = (temp_path, Inl e, w1)"
  using assms by (simp add: try_body_def)


lemma try_body_run_completes:
  assumes "save_upload env input_file w = (temp_path, Inr u, w1)"
    and "subprocess_run env (build_cmd device method temp_path) 30 w1 = (Inr proc, w2)"
  shows "try_body env method device input_file w = (temp_path, Inr (decode_output env proc), w2)"
  using assms by (simp add: try_body_def)

lemma run_exits_in_time:
  assumes "spawn env cmd None w = (Inr (Exits d rc out err), f)" and "d \<le> t"
  shows "subprocess_run env cmd t w =
           (Inr \<lparr>args = cmd, returncode = rc, stdout = out, stderr = err\<rparr>, f)"
  using assms by (simp add: subprocess_run_def)



lemma subprocess_run_files:
  "snd (subprocess_run env cmd t w) = snd (spawn env cmd None w)"
  by (auto simp: subprocess_run_def split: prod.splits sum.splits child.splits)

lemma subprocess_run_fst:
  "fst (subprocess_run env cmd t w) =
     (case fst (spawn env cmd None w) of
        Inl e \<Rightarrow> Inl e
      | Inr c \<Rightarrow>
          (case c of
             Hangs \<Rightarrow> Inl TimeoutExpired
           | Exits d rc out err \<Rightarrow>
               (if d \<le> t then Inr \<lparr>args = cmd, returncode = rc, stdout = out, stderr = err\<rparr>
                else Inl TimeoutExpired)))"
  by (auto simp: subprocess_run_def split: prod.splits sum.splits child.splits)

lemma mkstemp_inner_created:
  assumes "mkstemp_inner dir pre suf ns w = (Inr file, w1)"
  shows "(\<exists>n \<in> set ns. file = path_join dir (pre @ n @ suf)) \<and> w file = None
         \<and> w1 = w(file \<mapsto> File [])"
  using assms
proof (induction ns)
  case Nil
  then show ?case by simp
next
  case (Cons n ns)
  show ?case
  proof (cases "w (path_join dir (pre @ n @ suf)) = None")
    case True
    from Cons.prems True have f: "file = path_join dir (pre @ n @ suf)"
      by (auto simp: Let_def)
    from Cons.prems True
    have "w1 = w(path_join dir (pre @ n @ suf) \<mapsto> File [])"
      by (auto simp: Let_def)
    with f have w1: "w1 = w(file \<mapsto> File [])" by (simp only:)
    from f have e: "\<exists>m \<in> set (n # ns). file = path_join dir (pre @ m @ suf)" by simp
    from f True have "w file = None" by (simp only:)
    with e w1 show ?thesis by blast
  next
    case False
    with Cons.prems have "mkstemp_inner dir pre suf ns w = (Inr file, w1)"
      by (simp add: Let_def)
    from Cons.IH[OF this] show ?thesis by auto
  qed
qed

lemma mkstemp_inner_raises:
  assumes "mkstemp_inner dir pre suf ns w = (Inl e, w1)"
  shows "w1 = w"
  using assms by (induction ns) (auto simp: Let_def split: if_splits)

lemma NamedTemporaryFile_created:
  assumes "NamedTemporaryFile env suffix w = (Inr file, w1)"
  shows "(\<exists>stem. file = stem @ suffix) \<and> w file = None \<and> w1 = w(file \<mapsto> File [])"
proof -
  from assms have m: "mkstemp_inner (tempdir env) (py ''tmp'') suffix (names env) w = (Inr file, w1)"
    by (simp add: NamedTemporaryFile_def split: option.splits)
  from mkstemp_inner_created[OF m] obtain n where
    f: "file = path_join (tempdir env) (py ''tmp'' @ n @ suffix)"
    and rest: "w file = None" "w1 = w(file \<mapsto> File [])"
    by blast
  have "\<exists>stem. path_join (tempdir env) (py ''tmp'' @ n @ suffix) = stem @ suffix"
  proof (cases "tempdir env \<noteq> [] \<and> last (tempdir env) = 47")
    case True
    then have "path_join (tempdir env) (py ''tmp'' @ n @ suffix)
                 = (tempdir env @ py ''tmp'' @ n) @ suffix"
      by (simp add: path_join_def)
    then show ?thesis by blast
  next
    case False
    then have "path_join (tempdir env) (py ''tmp'' @ n @ suffix)
                 = (tempdir env @ py ''/'' @ py ''tmp'' @ n) @ suffix"
      by (auto simp: path_join_def)
    then show ?thesis by blast
  qed
  with f rest show ?thesis by simp
qed

lemma NamedTemporaryFile_raises:
  assumes "NamedTemporaryFile env suffix w = (Inl e, w1)"
  shows "w1 = w"
  using assms mkstemp_inner_raises
  by (auto simp: NamedTemporaryFile_def split: option.splits)

lemma save_upload_none:
  "save_upload env None w = (None, Inr (), w)"
  by (simp add: save_upload_def)

lemma save_upload_create_raises:
  assumes "NamedTemporaryFile env (upload_suffix up) w = (Inl e, w1)"
  shows "save_upload env (Some up) w = (None, Inl e, w)"
  using assms NamedTemporaryFile_raises[OF assms] by (simp add: save_upload_def)

lemma save_upload_created:
  assumes "NamedTemporaryFile env (upload_suffix up) w = (Inr p, w1)"
  shows "\<exists>r w2. save_upload env (Some up) w = (Some p, r, w2) \<and> w2 p \<noteq> None"
proof -
  from NamedTemporaryFile_created[OF assms]
  have w1: "w1 = w(p \<mapsto> File [])" by simp
  show ?thesis
    using assms w1
    by (auto simp: save_upload_def upload_read_def tmp_write_def tmp_close_def
             split: option.splits)
qed

lemma save_upload_path:
  assumes "save_upload env input_file w = (temp_path, r, w1)"
  shows "case temp_path of
           None \<Rightarrow> (input_file = None \<or> (\<exists>e. r = Inl e)) \<and> w1 = w
         | Some p \<Rightarrow> w1 p \<noteq> None
             \<and> (\<exists>up w0. input_file = Some up
                    \<and> NamedTemporaryFile env (upload_suffix up) w = (Inr p, w0))"
proof (cases input_file)
  case None
  with assms show ?thesis by (simp add: save_upload_def)
next
  case (Some up)
  obtain tmp w0 where n: "NamedTemporaryFile env (upload_suffix up) w = (tmp, w0)"
    by (cases "NamedTemporaryFile env (upload_suffix up) w")
  show ?thesis
  proof (cases tmp)
    case (Inl e)
    with n have "save_upload env (Some up) w = (None, Inl e, w)"
      by (simp add: save_upload_create_raises)
    with assms Some show ?thesis by auto
  next
    case (Inr p)
    with n save_upload_created[of env up w p w0]
    obtain r' w2 where "save_upload env (Some up) w = (Some p, r', w2)" "w2 p \<noteq> None"
      by auto
    with assms Some n Inr show ?thesis by auto
  qed
qed

lemma handler_answer:
  assumes "handler = web_run_mup1cc \<or> handler = docker_run_mup1cc"
    and "try_body env method device input_file w = (temp_path, r, w2)"
  shows "handler env method device input_file w =
           ((case fst (cleanup env temp_path w2) of
               Inl e \<Rightarrow> Inl e
             | Inr u \<Rightarrow> Inr (case r of Inr resp \<Rightarrow> resp | Inl e \<Rightarrow> on_exception e)),
            snd (cleanup env temp_path w2))"
  using web_run_eq[OF assms(2)] either_copy[OF assms(1)] by simp

section \<open>Responses by outcome of the external process\<close>

text \<open>
  C1 asks for 200 with exactly one of \<open>output\<close> and \<open>output_raw\<close> whenever the process
  exits with status zero.  The service does not give that for a decoded value JSON
  cannot carry.  The mocked tool exits with status zero and the stdout \<open>temp: .nan\<close>,
  the YAML library decodes it to a dictionary holding the float \<open>nan\<close>, both copies of
  the handler return the dictionary \<open>{"output": ...}\<close>, and the framework, which
  renders it after the handler has returned, answers 500 with plain text and neither
  key.
\<close>

theorem nan_output_is_served_as_500:
  "spawn mock_env (build_cmd (py ''/dev/ttyACM0'') (py ''probe'') None) None mock_fs
     = (Inr (Exits 1 0 (py ''temp: .nan'') []), mock_fs)
   \<and> safe_load mock_env (strip (py ''temp: .nan''))
     = Inr (VDict [(VStr (py ''temp''), VFloat NaN)])
   \<and> fst (web_run_mup1cc mock_env (py ''probe'') (py ''/dev/ttyACM0'') None mock_fs)
     = Inr (Dict [(py ''output'', VDict [(VStr (py ''temp''), VFloat NaN)])])
   \<and> serve mock_env
        (fst (web_run_mup1cc mock_env (py ''probe'') (py ''/dev/ttyACM0'') None mock_fs))
     = Plain 500 (py ''Internal Server Error'')
   \<and> serve mock_env
        (fst (docker_run_mup1cc mock_env (py ''probe'') (py ''/dev/ttyACM0'') None mock_fs))
     = Plain 500 (py ''Internal Server Error'')"
proof -
  have g: "spawn mock_env (build_cmd (py ''/dev/ttyACM0'') (py ''probe'') None) None mock_fs
     = (Inr (Exits 1 0 (py ''temp: .nan'') []), mock_fs)"
    by (simp add: mock_env_def mock_tool_def build_cmd_def py_def)
  have sp: "strip (py ''temp: .nan'') = py ''temp: .nan''"
    by (simp add: strip_def isspace_def py_def)
  have l: "safe_load mock_env (py ''temp: .nan'')
     = Inr (VDict [(VStr (py ''temp''), VFloat NaN)])"
    by (simp add: mock_env_def mock_safe_load_def py_def)
  from run_exits_in_time[OF g, of 30]
  have r: "subprocess_run mock_env (build_cmd (py ''/dev/ttyACM0'') (py ''probe'') None) 30 mock_fs
     = (Inr \<lparr>args = build_cmd (py ''/dev/ttyACM0'') (py ''probe'') None, returncode = 0,
             stdout = py ''temp: .nan'', stderr = []\<rparr>, mock_fs)"
    by simp
  from web_run_eq[OF try_body_run_completes[OF save_upload_none r]]
  have w: "fst (web_run_mup1cc mock_env (py ''probe'') (py ''/dev/ttyACM0'') None mock_fs)
     = Inr (Dict [(py ''output'', VDict [(VStr (py ''temp''), VFloat NaN)])])"
    by (simp add: cleanup_none decode_output_def sp l)
  have s: "serve mock_env (Inr (Dict [(py ''output'', VDict [(VStr (py ''temp''), VFloat NaN)])]))
     = Plain 500 (py ''Internal Server Error'')"
    by (simp add: serve_def)
  from g l w s show ?thesis
    unfolding docker_eq_web sp by (simp only: simp_thms)
qed







section \<open>Exceptions\<close>




section \<open>The temp file\<close>


section \<open>The command line\<close>

lemma save_upload_spawn:
  "save_upload (env\<lparr>spawn := sp\<rparr>) input_file w = save_upload env input_file w"
proof (cases input_file)
  case None
  then show ?thesis by (simp add: save_upload_def)
next
  case (Some up)
  have n: "NamedTemporaryFile (env\<lparr>spawn := sp\<rparr>) s w = NamedTemporaryFile env s w" for s
    by (simp add: NamedTemporaryFile_def split: option.split)
  have r: "upload_read (env\<lparr>spawn := sp\<rparr>) u = upload_read env u" for u
    by (simp add: upload_read_def)
  have wr: "tmp_write (env\<lparr>spawn := sp\<rparr>) p b v = tmp_write env p b v" for p b v
    by (simp add: tmp_write_def)
  have cl: "tmp_close (env\<lparr>spawn := sp\<rparr>) p v = tmp_close env p v" for p v
    by (simp add: tmp_close_def)
  show ?thesis
    unfolding save_upload_def n r wr cl by (rule refl)
qed

lemma cleanup_spawn:
  "cleanup (env\<lparr>spawn := sp\<rparr>) temp_path w = cleanup env temp_path w"
  by (cases temp_path)
     (simp_all add: cleanup_def unlink_def split: option.split node.split)

lemma decode_output_spawn:
  "decode_output (env\<lparr>spawn := sp\<rparr>) proc = decode_output env proc"
  by (simp add: decode_output_def)

lemma subprocess_run_spawn:
  assumes "sp cmd None w = spawn env cmd None w"
  shows "subprocess_run (env\<lparr>spawn := sp\<rparr>) cmd t w = subprocess_run env cmd t w"
  using assms by (simp add: subprocess_run_def)

lemma web_run_spawn:
  assumes "save_upload env input_file w = (temp_path, r, w1)"
    and "\<forall>u. r = Inr u \<longrightarrow>
           sp (build_cmd device method temp_path) None w1
             = spawn env (build_cmd device method temp_path) None w1"
  shows "web_run_mup1cc (env\<lparr>spawn := sp\<rparr>) method device input_file w
           = web_run_mup1cc env method device input_file w"
proof -
  have "try_body (env\<lparr>spawn := sp\<rparr>) method device input_file w
          = try_body env method device input_file w"
  proof (cases r)
    case (Inl e)
    with assms(1) show ?thesis
      by (simp add: try_body_def save_upload_spawn)
  next
    case (Inr u)
    with assms(2)
    have "subprocess_run (env\<lparr>spawn := sp\<rparr>) (build_cmd device method temp_path) 30 w1
            = subprocess_run env (build_cmd device method temp_path) 30 w1"
      by (simp add: subprocess_run_spawn)
    with assms(1) Inr show ?thesis
      by (simp add: try_body_def save_upload_spawn decode_output_spawn
               split: prod.split sum.split)
  qed
  then show ?thesis
    by (simp add: web_run_mup1cc_def cleanup_spawn)
qed

lemma try_body_formula:
  assumes "save_upload env input_file w = (temp_path, Inr u, w1)"
  shows "try_body env method device input_file w =
           (temp_path,
            (case fst (subprocess_run env (build_cmd device method temp_path) 30 w1) of
               Inl e \<Rightarrow> Inl e
             | Inr proc \<Rightarrow> Inr (decode_output env proc)),
            snd (spawn env (build_cmd device method temp_path) None w1))"
proof -
  obtain r2 w2 where sr:
    "subprocess_run env (build_cmd device method temp_path) 30 w1 = (r2, w2)"
    by (cases "subprocess_run env (build_cmd device method temp_path) 30 w1")
  with subprocess_run_files[of env "build_cmd device method temp_path" 30 w1]
  have f: "w2 = snd (spawn env (build_cmd device method temp_path) None w1)" by simp
  from assms sr f show ?thesis
    by (cases r2) (simp_all add: try_body_def)
qed

text \<open>
  C6.  When saving the upload raised, the handler does not start the program at all.
  Otherwise it starts it exactly once, on the files as step (1) left them, with nothing
  supplied on stdin and with the command line \<open>dr mup1cc -d <device> -m <method>\<close>,
  \<open>device\<close> and \<open>method\<close> as they came, followed by \<open>-i <temp-file-path>\<close> if and only if
  there was an upload, the path being that of the file \<open>NamedTemporaryFile\<close> created:
  the handler's result and the files it leaves are a function of what the program does
  on that one start, and do not depend on what it would do on any other.  Of the child
  the handler uses whether it exited within 30 seconds, its exit status, its stdout and
  its stderr, and nothing else.
\<close>

theorem command_line_is_exact:
  assumes "handler = web_run_mup1cc \<or> handler = docker_run_mup1cc"
    and "save_upload env input_file w = (temp_path, r, w1)"
    and "cmd = [py ''dr'', py ''mup1cc'', py ''-d'', device, py ''-m'', method]
               @ (case temp_path of None \<Rightarrow> [] | Some p \<Rightarrow> [py ''-i'', p])"
  shows "(case r of
            Inl e \<Rightarrow>
              (\<forall>sp. handler (env\<lparr>spawn := sp\<rparr>) method device input_file w
                      = handler env method device input_file w)
          | Inr u \<Rightarrow>
              (\<forall>sp. sp cmd None w1 = spawn env cmd None w1 \<longrightarrow>
                     handler (env\<lparr>spawn := sp\<rparr>) method device input_file w
                       = handler env method device input_file w)
              \<and> snd (handler env method device input_file w)
                  = snd (cleanup env temp_path (snd (spawn env cmd None w1)))
              \<and> fst (handler env method device input_file w)
                  = (case fst (cleanup env temp_path (snd (spawn env cmd None w1))) of
                       Inl e \<Rightarrow> Inl e
                     | Inr v \<Rightarrow>
                         Inr (case fst (spawn env cmd None w1) of
                                Inl e \<Rightarrow> on_exception e
                              | Inr c \<Rightarrow>
                                  (case c of
                                     Hangs \<Rightarrow> on_exception TimeoutExpired
                                   | Exits d rc out err \<Rightarrow>
                                       (if d \<le> 30
                                        then decode_output env
                                               \<lparr>args = cmd, returncode = rc,
                                                stdout = out, stderr = err\<rparr>
                                        else on_exception TimeoutExpired))))
              \<and> (temp_path = None) = (input_file = None))
       \<and> (case temp_path of
             None \<Rightarrow> True
           | Some p \<Rightarrow>
               (\<exists>up w0. input_file = Some up
                  \<and> NamedTemporaryFile env (upload_suffix up) w = (Inr p, w0)))
       \<and> (\<forall>p p'. returncode p = returncode p' \<and> stdout p = stdout p' \<and> stderr p = stderr p'
             \<longrightarrow> decode_output env p = decode_output env p')"
proof -
  have cmd: "cmd = build_cmd device method temp_path"
    using assms(3) by (simp add: build_cmd_def)
  note h = either_copy[OF assms(1)]
  have A: "case r of
            Inl e \<Rightarrow>
              (\<forall>sp. handler (env\<lparr>spawn := sp\<rparr>) method device input_file w
                      = handler env method device input_file w)
          | Inr u \<Rightarrow>
              (\<forall>sp. sp cmd None w1 = spawn env cmd None w1 \<longrightarrow>
                     handler (env\<lparr>spawn := sp\<rparr>) method device input_file w
                       = handler env method device input_file w)
              \<and> snd (handler env method device input_file w)
                  = snd (cleanup env temp_path (snd (spawn env cmd None w1)))
              \<and> fst (handler env method device input_file w)
                  = (case fst (cleanup env temp_path (snd (spawn env cmd None w1))) of
                       Inl e \<Rightarrow> Inl e
                     | Inr v \<Rightarrow>
                         Inr (case fst (spawn env cmd None w1) of
                                Inl e \<Rightarrow> on_exception e
                              | Inr c \<Rightarrow>
                                  (case c of
                                     Hangs \<Rightarrow> on_exception TimeoutExpired
                                   | Exits d rc out err \<Rightarrow>
                                       (if d \<le> 30
                                        then decode_output env
                                               \<lparr>args = cmd, returncode = rc,
                                                stdout = out, stderr = err\<rparr>
                                        else on_exception TimeoutExpired))))
              \<and> (temp_path = None) = (input_file = None)"
  proof (cases r)
    case (Inl e)
    have "handler (env\<lparr>spawn := sp\<rparr>) method device input_file w
            = handler env method device input_file w" for sp
      using web_run_spawn[OF assms(2), of sp "device" "method"] Inl h by simp
    with Inl show ?thesis by simp
  next
    case (Inr u)
    have i: "handler (env\<lparr>spawn := sp\<rparr>) method device input_file w
            = handler env method device input_file w"
      if "sp cmd None w1 = spawn env cmd None w1" for sp
      using web_run_spawn[OF assms(2), of sp "device" "method"] that h cmd by simp
    from assms(2) Inr have s: "save_upload env input_file w = (temp_path, Inr u, w1)"
      by simp
    note t = try_body_formula[OF s, of "method" "device"]
    note ha = handler_answer[OF assms(1) t, folded cmd]
    from handler_answer[OF assms(1) t]
    have sn: "snd (handler env method device input_file w)
                = snd (cleanup env temp_path (snd (spawn env cmd None w1)))"
      by (simp add: cmd)
    have inner: "(case (case fst (subprocess_run env cmd 30 w1) of
                           Inl e \<Rightarrow> Inl e
                         | Inr proc \<Rightarrow> Inr (decode_output env proc)) of
                    Inr resp \<Rightarrow> resp
                  | Inl e \<Rightarrow> on_exception e)
        = (case fst (spawn env cmd None w1) of
             Inl e \<Rightarrow> on_exception e
           | Inr c \<Rightarrow>
               (case c of
                  Hangs \<Rightarrow> on_exception TimeoutExpired
                | Exits d rc out err \<Rightarrow>
                    (if d \<le> 30
                     then decode_output env
                            \<lparr>args = cmd, returncode = rc, stdout = out, stderr = err\<rparr>
                     else on_exception TimeoutExpired)))"
      unfolding subprocess_run_fst
      by (simp split: sum.split child.split)
    have "fst (handler env method device input_file w)
                  = (case fst (cleanup env temp_path (snd (spawn env cmd None w1))) of
                       Inl e \<Rightarrow> Inl e
                     | Inr v \<Rightarrow>
                         Inr (case (case fst (subprocess_run env cmd 30 w1) of
                                      Inl e \<Rightarrow> Inl e
                                    | Inr proc \<Rightarrow> Inr (decode_output env proc)) of
                                Inr resp \<Rightarrow> resp
                              | Inl e \<Rightarrow> on_exception e))"
      by (simp only: ha fst_conv)
    then
    have ft: "fst (handler env method device input_file w)
                  = (case fst (cleanup env temp_path (snd (spawn env cmd None w1))) of
                       Inl e \<Rightarrow> Inl e
                     | Inr v \<Rightarrow>
                         Inr (case fst (spawn env cmd None w1) of
                                Inl e \<Rightarrow> on_exception e
                              | Inr c \<Rightarrow>
                                  (case c of
                                     Hangs \<Rightarrow> on_exception TimeoutExpired
                                   | Exits d rc out err \<Rightarrow>
                                       (if d \<le> 30
                                        then decode_output env
                                               \<lparr>args = cmd, returncode = rc,
                                                stdout = out, stderr = err\<rparr>
                                        else on_exception TimeoutExpired))))"
      by (simp only: inner)
    from save_upload_path[OF s]
    have tp: "(temp_path = None) = (input_file = None)"
      by (cases temp_path) auto
    from i have I: "\<forall>sp. sp cmd None w1 = spawn env cmd None w1 \<longrightarrow>
                     handler (env\<lparr>spawn := sp\<rparr>) method device input_file w
                       = handler env method device input_file w"
      by blast
    show ?thesis
      unfolding Inr sum.case by (rule conjI[OF I conjI[OF sn conjI[OF ft tp]]])
  qed
  from save_upload_path[OF assms(2)]
  have B: "case temp_path of
             None \<Rightarrow> True
           | Some p \<Rightarrow>
               (\<exists>up w0. input_file = Some up
                  \<and> NamedTemporaryFile env (upload_suffix up) w = (Inr p, w0))"
    by (cases temp_path) auto
  have C: "\<forall>p p'. returncode p = returncode p' \<and> stdout p = stdout p' \<and> stderr p = stderr p'
             \<longrightarrow> decode_output env p = decode_output env p'"
    by (simp add: decode_output_def)
  show ?thesis by (rule conjI[OF A conjI[OF B C]])
qed

theorem command_line_is_exact_witness:
  "save_upload mock_env (Some mock_upload) mock_fs
     = (Some (py ''/tmp/tmpk3x9q_ab.yml''), Inr (),
        [py ''/tmp/tmpk3x9q_ab.yml'' \<mapsto> File [45, 32, 97]])
   \<and> spawn mock_env
        [py ''dr'', py ''mup1cc'', py ''-d'', py ''/dev/ttyACM0'', py ''-m'', py ''put'',
         py ''-i'', py ''/tmp/tmpk3x9q_ab.yml'']
        None [py ''/tmp/tmpk3x9q_ab.yml'' \<mapsto> File [45, 32, 97]]
     = (Inr (Exits 1 3 [] (py ''cannot read /tmp/tmpk3x9q_ab.yml'')),
        [py ''/tmp/tmpk3x9q_ab.yml'' \<mapsto> File [45, 32, 97]])
   \<and> snd (web_run_mup1cc mock_env (py ''put'') (py ''/dev/ttyACM0'') (Some mock_upload) mock_fs)
     = Map.empty
   \<and> fst (web_run_mup1cc mock_env (py ''put'') (py ''/dev/ttyACM0'') (Some mock_upload) mock_fs)
     = Inr (Response \<lparr>status_code = 500,
              content = [(py ''error'', VStr (py ''cannot read /tmp/tmpk3x9q_ab.yml''))]\<rparr>)"
proof -
  have s: "save_upload mock_env (Some mock_upload) mock_fs
     = (Some (py ''/tmp/tmpk3x9q_ab.yml''), Inr (),
        [py ''/tmp/tmpk3x9q_ab.yml'' \<mapsto> File [45, 32, 97]])"
    by (simp add: save_upload_def upload_suffix_def filename_or_def str_or_def path_suffix_def
          path_name_def NamedTemporaryFile_def path_join_def upload_read_def tmp_write_def
          tmp_close_def Let_def mock_env_def mock_upload_def mock_fs_def py_def)
  have c: "[py ''dr'', py ''mup1cc'', py ''-d'', py ''/dev/ttyACM0'', py ''-m'', py ''put'',
            py ''-i'', py ''/tmp/tmpk3x9q_ab.yml'']
         = [py ''dr'', py ''mup1cc'', py ''-d'', py ''/dev/ttyACM0'', py ''-m'', py ''put'']
           @ (case Some (py ''/tmp/tmpk3x9q_ab.yml'') of None \<Rightarrow> [] | Some p \<Rightarrow> [py ''-i'', p])"
    by simp
  have g: "spawn mock_env
        [py ''dr'', py ''mup1cc'', py ''-d'', py ''/dev/ttyACM0'', py ''-m'', py ''put'',
         py ''-i'', py ''/tmp/tmpk3x9q_ab.yml'']
        None [py ''/tmp/tmpk3x9q_ab.yml'' \<mapsto> File [45, 32, 97]]
     = (Inr (Exits 1 3 [] (py ''cannot read /tmp/tmpk3x9q_ab.yml'')),
        [py ''/tmp/tmpk3x9q_ab.yml'' \<mapsto> File [45, 32, 97]])"
    by (simp add: mock_env_def mock_tool_def py_def)
  have u: "cleanup mock_env (Some (py ''/tmp/tmpk3x9q_ab.yml''))
             [py ''/tmp/tmpk3x9q_ab.yml'' \<mapsto> File [45, 32, 97]]
     = (Inr (), Map.empty)"
    by (simp add: cleanup_def exists_def unlink_def mock_env_def)
  have t: "strip (py ''cannot read /tmp/tmpk3x9q_ab.yml'') = py ''cannot read /tmp/tmpk3x9q_ab.yml''"
    by (simp add: strip_def isspace_def py_def)
  have n: "py ''cannot read /tmp/tmpk3x9q_ab.yml'' \<noteq> []"
    by (simp add: py_def)
  note th = command_line_is_exact[OF disjI1[OF refl] s c, THEN conjunct1, unfolded sum.case,
      THEN conjunct2]
  from th[THEN conjunct1]
  have a: "snd (web_run_mup1cc mock_env (py ''put'') (py ''/dev/ttyACM0'') (Some mock_upload)
                  mock_fs) = Map.empty"
    by (simp add: g u)
  from th[THEN conjunct2, THEN conjunct1]
  have b: "fst (web_run_mup1cc mock_env (py ''put'') (py ''/dev/ttyACM0'') (Some mock_upload)
                  mock_fs)
     = Inr (Response \<lparr>status_code = 500,
              content = [(py ''error'', VStr (py ''cannot read /tmp/tmpk3x9q_ab.yml''))]\<rparr>)"
    by (simp add: g u decode_output_def JSONResponse_def str_or_def t n)
  from s g a b show ?thesis by (simp only: simp_thms)
qed



section \<open>Two executions\<close>

text \<open>
  C8, as stated, fails.  Two executions with the same method, device and upload, against
  the same mocked tool (a function of the command line alone) and the same YAML
  library, in which \<open>tempfile\<close> draws different names: the command lines differ in the
  temp-file path, the tool reports the path on stderr, and the bodies differ.
\<close>

theorem same_request_different_response:
  "spawn mock_env = spawn mock_env_again
   \<and> safe_load mock_env = safe_load mock_env_again
   \<and> serve mock_env
        (fst (web_run_mup1cc mock_env (py ''put'') (py ''/dev/ttyACM0'') (Some mock_upload)
                mock_fs))
     = Json 500 [(py ''error'', VStr (py ''cannot read /tmp/tmpk3x9q_ab.yml''))]
   \<and> serve mock_env_again
        (fst (web_run_mup1cc mock_env_again (py ''put'') (py ''/dev/ttyACM0'')
                (Some mock_upload) mock_fs))
     = Json 500 [(py ''error'', VStr (py ''cannot read /tmp/tmpzz81hm0p.yml''))]
   \<and> serve mock_env
        (fst (web_run_mup1cc mock_env (py ''put'') (py ''/dev/ttyACM0'') (Some mock_upload)
                mock_fs))
     \<noteq> serve mock_env_again
        (fst (web_run_mup1cc mock_env_again (py ''put'') (py ''/dev/ttyACM0'')
                (Some mock_upload) mock_fs))"
proof -
  have e: "spawn mock_env = spawn mock_env_again"
    "safe_load mock_env = safe_load mock_env_again"
    by (simp_all add: mock_env_again_def)
  have s1: "save_upload mock_env (Some mock_upload) mock_fs
     = (Some (py ''/tmp/tmpk3x9q_ab.yml''), Inr (),
        [py ''/tmp/tmpk3x9q_ab.yml'' \<mapsto> File [45, 32, 97]])"
    by (simp add: save_upload_def upload_suffix_def filename_or_def str_or_def path_suffix_def
          path_name_def NamedTemporaryFile_def path_join_def upload_read_def tmp_write_def
          tmp_close_def Let_def mock_env_def mock_upload_def mock_fs_def py_def)
  have s2: "save_upload mock_env_again (Some mock_upload) mock_fs
     = (Some (py ''/tmp/tmpzz81hm0p.yml''), Inr (),
        [py ''/tmp/tmpzz81hm0p.yml'' \<mapsto> File [45, 32, 97]])"
    by (simp add: save_upload_def upload_suffix_def filename_or_def str_or_def path_suffix_def
          path_name_def NamedTemporaryFile_def path_join_def upload_read_def tmp_write_def
          tmp_close_def Let_def mock_env_again_def mock_env_def mock_upload_def mock_fs_def
          py_def)
  have g1: "spawn mock_env
              (build_cmd (py ''/dev/ttyACM0'') (py ''put'') (Some (py ''/tmp/tmpk3x9q_ab.yml'')))
              None [py ''/tmp/tmpk3x9q_ab.yml'' \<mapsto> File [45, 32, 97]]
     = (Inr (Exits 1 3 [] (py ''cannot read /tmp/tmpk3x9q_ab.yml'')),
        [py ''/tmp/tmpk3x9q_ab.yml'' \<mapsto> File [45, 32, 97]])"
    by (simp add: mock_env_def mock_tool_def build_cmd_def py_def)
  have g2: "spawn mock_env_again
              (build_cmd (py ''/dev/ttyACM0'') (py ''put'') (Some (py ''/tmp/tmpzz81hm0p.yml'')))
              None [py ''/tmp/tmpzz81hm0p.yml'' \<mapsto> File [45, 32, 97]]
     = (Inr (Exits 1 3 [] (py ''cannot read /tmp/tmpzz81hm0p.yml'')),
        [py ''/tmp/tmpzz81hm0p.yml'' \<mapsto> File [45, 32, 97]])"
    by (simp add: mock_env_again_def mock_env_def mock_tool_def build_cmd_def py_def)
  have c1: "fst (cleanup mock_env (Some (py ''/tmp/tmpk3x9q_ab.yml''))
             [py ''/tmp/tmpk3x9q_ab.yml'' \<mapsto> File [45, 32, 97]]) = Inr ()"
    by (simp add: cleanup_def exists_def unlink_def mock_env_def)
  have c2: "fst (cleanup mock_env_again (Some (py ''/tmp/tmpzz81hm0p.yml''))
             [py ''/tmp/tmpzz81hm0p.yml'' \<mapsto> File [45, 32, 97]]) = Inr ()"
    by (simp add: cleanup_def exists_def unlink_def mock_env_again_def mock_env_def)
  have t1: "strip (py ''cannot read /tmp/tmpk3x9q_ab.yml'') = py ''cannot read /tmp/tmpk3x9q_ab.yml''"
    by (simp add: strip_def isspace_def py_def)
  have t2: "strip (py ''cannot read /tmp/tmpzz81hm0p.yml'') = py ''cannot read /tmp/tmpzz81hm0p.yml''"
    by (simp add: strip_def isspace_def py_def)
  have n1: "py ''cannot read /tmp/tmpk3x9q_ab.yml'' \<noteq> []"
    and n2: "py ''cannot read /tmp/tmpzz81hm0p.yml'' \<noteq> []"
    and n: "py ''cannot read /tmp/tmpk3x9q_ab.yml'' \<noteq> py ''cannot read /tmp/tmpzz81hm0p.yml''"
    by (simp_all add: py_def)
  from web_run_eq[OF try_body_run_completes[OF s1 run_exits_in_time[OF g1, of 30]]] c1
  have a: "serve mock_env
        (fst (web_run_mup1cc mock_env (py ''put'') (py ''/dev/ttyACM0'') (Some mock_upload)
                mock_fs))
     = Json 500 [(py ''error'', VStr (py ''cannot read /tmp/tmpk3x9q_ab.yml''))]"
    by (simp add: decode_output_def JSONResponse_def str_or_def serve_def t1 n1)
  from web_run_eq[OF try_body_run_completes[OF s2 run_exits_in_time[OF g2, of 30]]] c2
  have b: "serve mock_env_again
        (fst (web_run_mup1cc mock_env_again (py ''put'') (py ''/dev/ttyACM0'')
                (Some mock_upload) mock_fs))
     = Json 500 [(py ''error'', VStr (py ''cannot read /tmp/tmpzz81hm0p.yml''))]"
    by (simp add: decode_output_def JSONResponse_def str_or_def serve_def t2 n2)
  from e a b n show ?thesis by simp
qed

lemma web_run_returned:
  assumes "save_upload env input_file w = (temp_path, r, w1)"
    and "fst (web_run_mup1cc env method device input_file w) = Inr x"
  shows "x = (case r of
                Inl e \<Rightarrow> on_exception e
              | Inr u \<Rightarrow>
                  (case fst (spawn env (build_cmd device method temp_path) None w1) of
                     Inl e \<Rightarrow> on_exception e
                   | Inr c \<Rightarrow>
                       (case c of
                          Hangs \<Rightarrow> on_exception TimeoutExpired
                        | Exits d rc out err \<Rightarrow>
                            (if d \<le> 30
                             then decode_output env
                                    \<lparr>args = build_cmd device method temp_path, returncode = rc,
                                     stdout = out, stderr = err\<rparr>
                             else on_exception TimeoutExpired))))"
proof (cases r)
  case (Inl e)
  with assms(1) have "try_body env method device input_file w = (temp_path, Inl e, w1)"
    by (simp add: try_body_save_raises)
  from web_run_eq[OF this] assms(2) Inl show ?thesis
    by (cases "fst (cleanup env temp_path w1)") simp_all
next
  case (Inr u)
  with assms(1) have s: "save_upload env input_file w = (temp_path, Inr u, w1)" by simp
  note t = try_body_formula[OF s, of "method" "device"]
  from web_run_eq[OF t] assms(2)
  have "x = (case (case fst (subprocess_run env (build_cmd device method temp_path) 30 w1) of
                     Inl e \<Rightarrow> Inl e
                   | Inr proc \<Rightarrow> Inr (decode_output env proc)) of
               Inr resp \<Rightarrow> resp
             | Inl e \<Rightarrow> on_exception e)"
    by (cases "fst (cleanup env temp_path
                      (snd (spawn env (build_cmd device method temp_path) None w1)))")
       simp_all
  then show ?thesis
    unfolding subprocess_run_fst Inr
    by (simp split: sum.split child.split)
qed

lemma decode_output_same:
  assumes "safe_load env = safe_load env'"
  shows "decode_output env \<lparr>args = a, returncode = rc, stdout = out, stderr = err\<rparr>
           = decode_output env' \<lparr>args = a', returncode = rc, stdout = out, stderr = err\<rparr>"
  using assms by (simp add: decode_output_def)

text \<open>
  C8, amended.  Two executions with the same method, device and upload, against the
  same YAML library and web framework, in which saving the upload ends the same way
  (saved, or the same exception), in which the external process returns the same on
  the two command lines, and in which the handler returns, give the same response.
\<close>

theorem same_outcome_same_response:
  assumes "handler = web_run_mup1cc \<or> handler = docker_run_mup1cc"
    and "safe_load env = safe_load env'"
    and "render_other env = render_other env'"
    and "save_upload env input_file w = (temp_path, r, w1)"
    and "save_upload env' input_file w' = (temp_path', r, w1')"
    and "fst (spawn env (build_cmd device method temp_path) None w1)
           = fst (spawn env' (build_cmd device method temp_path') None w1')"
    and "fst (handler env method device input_file w) = Inr x"
    and "fst (handler env' method device input_file w') = Inr x'"
  shows "x = x' \<and> serve env (Inr x) = serve env' (Inr x')"
proof -
  from assms(7,8) either_copy[OF assms(1)]
  have a: "fst (web_run_mup1cc env method device input_file w) = Inr x"
    and b: "fst (web_run_mup1cc env' method device input_file w') = Inr x'"
    by simp_all
  note fa = web_run_returned[OF assms(4) a]
  note fb = web_run_returned[OF assms(5) b]
  have "x = x'"
    unfolding fa fb assms(6)
    by (simp add: decode_output_same[OF assms(2)] split: sum.split child.split)
  moreover have "serve env (Inr x') = serve env' (Inr x')"
    using assms(3) by (cases x') (simp_all add: serve_def)
  ultimately show ?thesis by simp
qed

theorem same_outcome_same_response_witness:
  "save_upload mock_env (Some mock_upload) mock_fs
     = (Some (py ''/tmp/tmpk3x9q_ab.yml''), Inr (),
        [py ''/tmp/tmpk3x9q_ab.yml'' \<mapsto> File [45, 32, 97]])
   \<and> save_upload mock_env_again (Some mock_upload) mock_fs
     = (Some (py ''/tmp/tmpzz81hm0p.yml''), Inr (),
        [py ''/tmp/tmpzz81hm0p.yml'' \<mapsto> File [45, 32, 97]])
   \<and> fst (docker_run_mup1cc mock_env (py ''get'') (py ''/dev/ttyACM0'') (Some mock_upload)
            mock_fs)
     = Inr (Dict [(py ''output'', VDict [(VStr (py ''status''), VStr (py ''ok''))])])
   \<and> fst (docker_run_mup1cc mock_env_again (py ''get'') (py ''/dev/ttyACM0'')
            (Some mock_upload) mock_fs)
     = Inr (Dict [(py ''output'', VDict [(VStr (py ''status''), VStr (py ''ok''))])])
   \<and> serve mock_env (Inr (Dict [(py ''output'', VDict [(VStr (py ''status''), VStr (py ''ok''))])]))
     = serve mock_env_again
         (Inr (Dict [(py ''output'', VDict [(VStr (py ''status''), VStr (py ''ok''))])]))"
proof -
  have l: "safe_load mock_env = safe_load mock_env_again"
    and ro: "render_other mock_env = render_other mock_env_again"
    by (simp_all add: mock_env_again_def)
  have s1: "save_upload mock_env (Some mock_upload) mock_fs
     = (Some (py ''/tmp/tmpk3x9q_ab.yml''), Inr (),
        [py ''/tmp/tmpk3x9q_ab.yml'' \<mapsto> File [45, 32, 97]])"
    by (simp add: save_upload_def upload_suffix_def filename_or_def str_or_def path_suffix_def
          path_name_def NamedTemporaryFile_def path_join_def upload_read_def tmp_write_def
          tmp_close_def Let_def mock_env_def mock_upload_def mock_fs_def py_def)
  have s2: "save_upload mock_env_again (Some mock_upload) mock_fs
     = (Some (py ''/tmp/tmpzz81hm0p.yml''), Inr (),
        [py ''/tmp/tmpzz81hm0p.yml'' \<mapsto> File [45, 32, 97]])"
    by (simp add: save_upload_def upload_suffix_def filename_or_def str_or_def path_suffix_def
          path_name_def NamedTemporaryFile_def path_join_def upload_read_def tmp_write_def
          tmp_close_def Let_def mock_env_again_def mock_env_def mock_upload_def mock_fs_def
          py_def)
  have g1: "spawn mock_env
              (build_cmd (py ''/dev/ttyACM0'') (py ''get'') (Some (py ''/tmp/tmpk3x9q_ab.yml'')))
              None [py ''/tmp/tmpk3x9q_ab.yml'' \<mapsto> File [45, 32, 97]]
     = (Inr (Exits 2 0 (py '' status: ok '') []),
        [py ''/tmp/tmpk3x9q_ab.yml'' \<mapsto> File [45, 32, 97]])"
    by (simp add: mock_env_def mock_tool_def build_cmd_def py_def)
  have g2: "spawn mock_env_again
              (build_cmd (py ''/dev/ttyACM0'') (py ''get'') (Some (py ''/tmp/tmpzz81hm0p.yml'')))
              None [py ''/tmp/tmpzz81hm0p.yml'' \<mapsto> File [45, 32, 97]]
     = (Inr (Exits 2 0 (py '' status: ok '') []),
        [py ''/tmp/tmpzz81hm0p.yml'' \<mapsto> File [45, 32, 97]])"
    by (simp add: mock_env_again_def mock_env_def mock_tool_def build_cmd_def py_def)
  from g1 g2 have g: "fst (spawn mock_env
              (build_cmd (py ''/dev/ttyACM0'') (py ''get'') (Some (py ''/tmp/tmpk3x9q_ab.yml'')))
              None [py ''/tmp/tmpk3x9q_ab.yml'' \<mapsto> File [45, 32, 97]])
     = fst (spawn mock_env_again
              (build_cmd (py ''/dev/ttyACM0'') (py ''get'') (Some (py ''/tmp/tmpzz81hm0p.yml'')))
              None [py ''/tmp/tmpzz81hm0p.yml'' \<mapsto> File [45, 32, 97]])"
    by simp
  have c1: "fst (cleanup mock_env (Some (py ''/tmp/tmpk3x9q_ab.yml''))
             [py ''/tmp/tmpk3x9q_ab.yml'' \<mapsto> File [45, 32, 97]]) = Inr ()"
    by (simp add: cleanup_def exists_def unlink_def mock_env_def)
  have c2: "fst (cleanup mock_env_again (Some (py ''/tmp/tmpzz81hm0p.yml''))
             [py ''/tmp/tmpzz81hm0p.yml'' \<mapsto> File [45, 32, 97]]) = Inr ()"
    by (simp add: cleanup_def exists_def unlink_def mock_env_again_def mock_env_def)
  have t: "strip (py '' status: ok '') = py ''status: ok''"
    by (simp add: strip_def isspace_def py_def)
  have y: "safe_load mock_env (py ''status: ok'')
             = Inr (VDict [(VStr (py ''status''), VStr (py ''ok''))])"
    "safe_load mock_env_again (py ''status: ok'')
             = Inr (VDict [(VStr (py ''status''), VStr (py ''ok''))])"
    by (simp_all add: mock_env_again_def mock_env_def mock_safe_load_def py_def)
  from web_run_eq[OF try_body_run_completes[OF s1 run_exits_in_time[OF g1, of 30]]] c1
  have a: "fst (docker_run_mup1cc mock_env (py ''get'') (py ''/dev/ttyACM0'')
                  (Some mock_upload) mock_fs)
     = Inr (Dict [(py ''output'', VDict [(VStr (py ''status''), VStr (py ''ok''))])])"
    unfolding docker_eq_web by (simp add: decode_output_def t y)
  from web_run_eq[OF try_body_run_completes[OF s2 run_exits_in_time[OF g2, of 30]]] c2
  have b: "fst (docker_run_mup1cc mock_env_again (py ''get'') (py ''/dev/ttyACM0'')
                  (Some mock_upload) mock_fs)
     = Inr (Dict [(py ''output'', VDict [(VStr (py ''status''), VStr (py ''ok''))])])"
    unfolding docker_eq_web by (simp add: decode_output_def t y)
  from same_outcome_same_response[OF disjI2[OF refl] l ro s1 s2 g a b]
  have c: "serve mock_env (Inr (Dict [(py ''output'', VDict [(VStr (py ''status''), VStr (py ''ok''))])]))
     = serve mock_env_again
         (Inr (Dict [(py ''output'', VDict [(VStr (py ''status''), VStr (py ''ok''))])]))"
    by (rule conjunct2)
  from s1 s2 a b c show ?thesis by (simp only: simp_thms)
qed

section \<open>The two copies\<close>

text \<open>
  C9.  For every method, device, optional upload, environment and file system, the
  handler of \<open>web/main.py\<close> and the handler of the docker copy give the same result (what
  is returned, or the exception that leaves) and leave the same files; the client
  receives the same response.
\<close>

theorem copies_agree:
  "fst (web_run_mup1cc env method device input_file w)
     = fst (docker_run_mup1cc env method device input_file w)
   \<and> snd (web_run_mup1cc env method device input_file w)
     = snd (docker_run_mup1cc env method device input_file w)
   \<and> serve env (fst (web_run_mup1cc env method device input_file w))
     = serve env (fst (docker_run_mup1cc env method device input_file w))"
  by (simp add: docker_eq_web)

end
